theory Spec2Isabelle
  imports Complex_Main "HOL-Library.Signed_Division"
begin

section \<open>The tag package as the adapters use it\<close>

text \<open>
  The metrics layer of controller-runtime talks to the OpenCensus packages \<open>tag\<close> and
  \<open>stats\<close>. They are not part of the repository; what follows is the part of their
  interface that the repository's code calls. The validation rule for tag keys is the one
  the repository quotes in \<open>pkg/webhook/metrics/metrics.go\<close> (length between 1 and 255
  inclusive, printable US-ASCII characters); the tag package applies the same character
  rule, with the empty string allowed, to tag values.
\<close>

datatype error = errInvalidKeyName | errInvalidValue

datatype Key = Key string

fun Key_Name :: "Key \<Rightarrow> string" where
  "Key_Name (Key n) = n"

definition isASCII :: "string \<Rightarrow> bool" where
  "isASCII s = list_all (\<lambda>c. 32 \<le> (of_char c :: nat) \<and> (of_char c :: nat) \<le> 126) s"

definition checkKeyName :: "string \<Rightarrow> bool" where
  "checkKeyName name = (0 < length name \<and> length name \<le> 255 \<and> isASCII name)"

definition checkValue :: "string \<Rightarrow> bool" where
  "checkValue v = (length v \<le> 255 \<and> isASCII v)"

text \<open>
  Modelled from the spec: \<open>tag.NewKey\<close>, the Tag Key Registry's constructor, which
  "fails with a ValidationError when name length is outside [1,255] or contains
  non-printable/non-ASCII characters". The Go function returns \<open>(Key, error)\<close>.
\<close>

definition tag_NewKey :: "string \<Rightarrow> error + Key" where
  "tag_NewKey name = (if \<not> checkKeyName name then Inl errInvalidKeyName else Inr (Key name))"

text \<open>
  A tag map (\<open>tag.Map\<close>, carried by a context) and the one mutator the repository uses,
  \<open>tag.Insert(k, v)\<close>: it rejects an invalid value and leaves an existing entry alone.
\<close>

type_synonym Map = "Key \<rightharpoonup> string"

datatype Mutator = tag_Insert Key string

fun Mutate :: "Mutator \<Rightarrow> Map \<Rightarrow> error + Map" where
  "Mutate (tag_Insert k v) m =
     (if \<not> checkValue v then Inl errInvalidValue
      else Inr (case m k of Some old \<Rightarrow> m | None \<Rightarrow> m(k \<mapsto> v)))"

fun Mutate_all :: "Mutator list \<Rightarrow> Map \<Rightarrow> error + Map" where
  "Mutate_all [] m = Inr m"
| "Mutate_all (mu # mus) m =
     (case Mutate mu m of Inl err \<Rightarrow> Inl err | Inr m' \<Rightarrow> Mutate_all mus m')"

definition context_Background :: Map where
  "context_Background = Map.empty"

text \<open>
  \<open>tag.New(ctx, mutator...)\<close> returns \<open>(context, error)\<close>: the context with the mutated
  tag map, or the context it was given together with the first mutator's error.
\<close>

definition tag_New :: "Map \<Rightarrow> Mutator list \<Rightarrow> Map \<times> error option" where
  "tag_New ctx mutator =
     (case Mutate_all mutator ctx of
        Inl err \<Rightarrow> (ctx, Some err)
      | Inr m \<Rightarrow> (m, None))"

section \<open>The stats package as the adapters use it\<close>

text \<open>
  \<open>stats.Int64(name, description, unit)\<close> and \<open>stats.Float64(name, description, unit)\<close>
  declare measures. A \<open>Measurement\<close> is what \<open>measure.M(v)\<close> builds: the value, kept by
  the library as a \<open>float64\<close> also for integer measures, and the measure. A
  \<open>float64\<close> value is carried here as the real number it denotes. The adapters pass
  values on unchanged; the one place where the code computes with them, the conversion of
  a duration to seconds, is modelled with the rounding of \<open>float64\<close> arithmetic.
\<close>

datatype Int64Measure = stats_Int64 string string string

datatype Float64Measure = stats_Float64 string string string

datatype Measure = IntMeasure Int64Measure | FloatMeasure Float64Measure

fun Measure_Name :: "Measure \<Rightarrow> string" where
  "Measure_Name (IntMeasure (stats_Int64 name description unit)) = name"
| "Measure_Name (FloatMeasure (stats_Float64 name description unit)) = name"

datatype Measurement = Measurement real Measure

fun Measurement_Value :: "Measurement \<Rightarrow> real" where
  "Measurement_Value (Measurement v m) = v"

fun Measurement_Measure :: "Measurement \<Rightarrow> Measure" where
  "Measurement_Measure (Measurement v m) = m"

definition Int64Measure_M :: "Int64Measure \<Rightarrow> int \<Rightarrow> Measurement" where
  "Int64Measure_M m v = Measurement (real_of_int v) (IntMeasure m)"

definition Float64Measure_M :: "Float64Measure \<Rightarrow> real \<Rightarrow> Measurement" where
  "Float64Measure_M m v = Measurement v (FloatMeasure m)"

definition UnitNone :: string where
  "UnitNone = ''1''"

text \<open>
  The export runtime is seen at its two recording entry points. Its state is the sequence
  of calls it has received, oldest first: this is what a test double of the runtime
  observes, and where the responsibility of the adapter layer ends. \<open>stats.Record\<close>
  returns nothing; \<open>stats.RecordWithTags\<close> returns the error of the tag-context creation
  it performs with the mutators it was given.
\<close>

datatype call =
    Record_call Map Measurement
  | RecordWithTags_call Map "Mutator list" Measurement

type_synonym runtime = "call list"

definition stats_Record :: "Map \<Rightarrow> Measurement \<Rightarrow> runtime \<Rightarrow> runtime" where
  "stats_Record ctx ms rt = rt @ [Record_call ctx ms]"

definition stats_RecordWithTags ::
    "Map \<Rightarrow> Mutator list \<Rightarrow> Measurement \<Rightarrow> runtime \<Rightarrow> error option \<times> runtime" where
  "stats_RecordWithTags ctx mutators ms rt =
     (snd (tag_New ctx mutators), rt @ [RecordWithTags_call ctx mutators ms])"

fun call_Measurement :: "call \<Rightarrow> Measurement" where
  "call_Measurement (Record_call ctx ms) = ms"
| "call_Measurement (RecordWithTags_call ctx mutators ms) = ms"

fun call_mutators :: "call \<Rightarrow> Mutator list" where
  "call_mutators (Record_call ctx ms) = []"
| "call_mutators (RecordWithTags_call ctx mutators ms) = mutators"

text \<open>
  The tag map under which the runtime records a call's measurement: the context of a
  \<open>Record\<close> call, the mutated context of a \<open>RecordWithTags\<close> call, and none when the
  runtime rejects the mutators.
\<close>

fun call_tags :: "call \<Rightarrow> Map option" where
  "call_tags (Record_call ctx ms) = Some ctx"
| "call_tags (RecordWithTags_call ctx mutators ms) =
     (case tag_New ctx mutators of (m, None) \<Rightarrow> Some m | (m, Some err) \<Rightarrow> None)"

section \<open>Time and URLs\<close>

text \<open>
  A \<open>float64\<close> operation yields the representable number nearest to the exact result,
  ties going to the even significand. \<open>float64 x\<close> is that rounding of a real \<open>x\<close>:
  \<open>float64_exponent x\<close> is the binary exponent \<open>e\<close> with \<open>2^e \<le> |x| < 2^(e+1)\<close>
  (computed on integers by \<open>floor_log2\<close>), raised to -1022 in the subnormal range; the
  spacing of the representable numbers at \<open>x\<close> is \<open>2^(e-52)\<close>, and \<open>x\<close> is rounded to
  the nearest multiple of it. Overflow to infinity is not modelled: it needs a magnitude
  of \<open>2^1024\<close>, and the values converted here are below \<open>2^64\<close>.
\<close>

function floor_log2 :: "int \<Rightarrow> int" where
  "floor_log2 n = (if n \<le> 1 then 0 else 1 + floor_log2 (n div 2))"
  by pat_completeness auto
termination
  by (relation "measure nat") auto

declare floor_log2.simps [simp del]

definition float64_exponent :: "real \<Rightarrow> int" where
  "float64_exponent x =
     (if 1 \<le> \<bar>x\<bar> then floor_log2 \<lfloor>\<bar>x\<bar>\<rfloor>
      else - (floor_log2 (\<lceil>1 / \<bar>x\<bar>\<rceil> - 1) + 1))"

definition round_half_even :: "real \<Rightarrow> int" where
  "round_half_even y =
     (let n = \<lfloor>y\<rfloor>; f = y - of_int n
      in if f < 1 / 2 then n
         else if 1 / 2 < f then n + 1
         else if even n then n else n + 1)"

definition float64 :: "real \<Rightarrow> real" where
  "float64 x =
     (if x = 0 then 0
      else let e = max (float64_exponent x) (- 1022);
               ulp = 2 powi (e - 52)
           in of_int (round_half_even (x / ulp)) * ulp)"

text \<open>
  A \<open>time.Duration\<close> is a count of nanoseconds in an \<open>int64\<close>. Its method \<open>Seconds\<close>
  is, in the Go library,
  \<^verbatim>\<open>sec := d / Second; nsec := d % Second; return float64(sec) + float64(nsec)/1e9\<close>
  with Go's truncating integer division, which cannot overflow: two conversions to
  \<open>float64\<close>, one division and one addition, each rounded. A \<open>url.URL\<close> is used only
  through its \<open>String\<close> method and is represented by that rendering.
\<close>

type_synonym Duration = int

definition Second :: Duration where
  "Second = 1000000000"

definition Duration_Seconds :: "Duration \<Rightarrow> real" where
  "Duration_Seconds d =
     (let sec = d sdiv Second; nsec = d smod Second
      in float64 (float64 (real_of_int sec) +
                  float64 (float64 (real_of_int nsec) / 1000000000)))"

datatype URL = URL string

fun URL_String :: "URL \<Rightarrow> string" where
  "URL_String (URL s) = s"

section \<open>Package metrics: measures and tag keys\<close>

text \<open>
  The declarations of the client-go metrics file of package \<open>metrics\<close>: one measure per
  measurement point, with the name, description and unit of the source.
\<close>

definition MeasureRequestLatency :: Float64Measure where
  "MeasureRequestLatency = stats_Float64
     ''sigs.kubernetes.io/controller-runtime/measures/rest_client_request_latency_seconds''
     (''Request latency in seconds'')
     ''s''"

definition MeasureRequestResult :: Int64Measure where
  "MeasureRequestResult = stats_Int64
     ''sigs.kubernetes.io/controller-runtime/measures/rest_client_requests_total''
     (''Number of HTTP requests'')
     UnitNone"

definition MeasureListsTotal :: Int64Measure where
  "MeasureListsTotal = stats_Int64
     ''sigs.kubernetes.io/controller-runtime/measures/reflector_lists_total''
     (''Total number of API lists done by the reflectors'')
     UnitNone"

definition MeasureListsDuration :: Float64Measure where
  "MeasureListsDuration = stats_Float64
     ''sigs.kubernetes.io/controller-runtime/measures/reflector_list_duration_seconds''
     (''How long an API list takes to return and decode for the reflectors'')
     UnitNone"

definition MeasureItemsPerList :: Float64Measure where
  "MeasureItemsPerList = stats_Float64
     ''sigs.kubernetes.io/controller-runtime/measures/reflector_items_per_list''
     (''How many items an API list returns to the reflectors'')
     UnitNone"

definition MeasureWatchesTotal :: Int64Measure where
  "MeasureWatchesTotal = stats_Int64
     ''sigs.kubernetes.io/controller-runtime/measures/reflector_watches_total''
     (''Total number of API watches done by the reflectors'')
     UnitNone"

definition MeasureShortWatchesTotal :: Int64Measure where
  "MeasureShortWatchesTotal = stats_Int64
     ''sigs.kubernetes.io/controller-runtime/measures/reflector_short_watches_total''
     (''Total number of short API watches done by the reflectors'')
     UnitNone"

definition MeasureWatchDuration :: Float64Measure where
  "MeasureWatchDuration = stats_Float64
     ''sigs.kubernetes.io/controller-runtime/measures/reflector_watch_duration_seconds''
     (''How long an API watch takes to return and decode for the reflectors'')
     UnitNone"

definition MeasureItemsPerWatch :: Float64Measure where
  "MeasureItemsPerWatch = stats_Float64
     ''sigs.kubernetes.io/controller-runtime/measures/reflector_items_per_watch''
     (''How many items an API watch returns to the reflectors'')
     UnitNone"

definition MeasureLastResourceVersion :: Float64Measure where
  "MeasureLastResourceVersion = stats_Float64
     ''sigs.kubernetes.io/controller-runtime/measures/reflector_last_resource_version''
     (''Last resource version seen for the reflectors'')
     UnitNone"

definition MeasureDepth :: Int64Measure where
  "MeasureDepth = stats_Int64
     ''sigs.kubernetes.io/controller-runtime/measures/workqueue_depth''
     (''Current depth of workqueue'')
     UnitNone"

definition MeasureAdds :: Int64Measure where
  "MeasureAdds = stats_Int64
     ''sigs.kubernetes.io/controller-runtime/measures/workqueue_adds_total''
     (''Total number of adds handled by workqueue'')
     UnitNone"

definition MeasureLatency :: Float64Measure where
  "MeasureLatency = stats_Float64
     ''sigs.kubernetes.io/controller-runtime/measures/workqueue_queue_latency_seconds''
     (''How long in seconds an item stays in workqueue before being requested.'')
     ''s''"

definition MeasureWorkDuration :: Float64Measure where
  "MeasureWorkDuration = stats_Float64
     ''sigs.kubernetes.io/controller-runtime/measures/workqueue_work_duration_seconds''
     (''How long in seconds processing an item from workqueue takes.'')
     ''s''"

definition MeasureRetries :: Int64Measure where
  "MeasureRetries = stats_Int64
     ''sigs.kubernetes.io/controller-runtime/measures/workqueue_retries_total''
     (''Total number of retries handled by workqueue'')
     ''s''"

definition MeasureLongestRunning :: Float64Measure where
  "MeasureLongestRunning = stats_Float64
     ''sigs.kubernetes.io/controller-runtime/measures/workqueue_longest_running_processor_microseconds''
     (''How many microseconds has the longest running processor for workqueue been running.'')
     ''us''"

definition MeasureUnfinishedWork :: Float64Measure where
  "MeasureUnfinishedWork = stats_Float64
     ''sigs.kubernetes.io/controller-runtime/measures/workqueue_unfinished_work_seconds''
     (''How many seconds of work has done that is in progress and hasn't been observed '' @
       ''by work_duration. Large values indicate stuck threads. One can deduce the '' @
       ''number of stuck threads by observing the rate at which this increases.'')
     ''s''"

text \<open>
  \<open>mustNewTagKey\<close> panics on the error of \<open>tag.NewKey\<close>: the panic is the left
  summand. A package variable initialised by it holds the key of the right summand; the
  package does not initialise when any of them panics.
\<close>

definition mustNewTagKey :: "string \<Rightarrow> error + Key" where
  "mustNewTagKey k =
     (case tag_NewKey k of
        Inl err \<Rightarrow> Inl err
      | Inr tagKey \<Rightarrow> Inr tagKey)"

definition TagVerb :: Key where
  "TagVerb = projr (mustNewTagKey ''verb'')"

definition TagURL :: Key where
  "TagURL = projr (mustNewTagKey ''url'')"

definition TagCode :: Key where
  "TagCode = projr (mustNewTagKey ''code'')"

definition TagMethod :: Key where
  "TagMethod = projr (mustNewTagKey ''method'')"

definition TagHost :: Key where
  "TagHost = projr (mustNewTagKey ''host'')"

definition TagName :: Key where
  "TagName = projr (mustNewTagKey ''name'')"

section \<open>Package metrics: the recording adapters\<close>

text \<open>
  The adapters hold no state of their own; the effect of a method is the call it makes
  into the export runtime, so a method maps the runtime before the call to the runtime
  after it. The Go methods have no result: the error that \<open>tag.New\<close> or
  \<open>stats.RecordWithTags\<close> returns is dropped where the source drops it.
\<close>

datatype latencyAdapter = latencyAdapter Float64Measure

fun latencyAdapter_Observe ::
    "latencyAdapter \<Rightarrow> string \<Rightarrow> URL \<Rightarrow> Duration \<Rightarrow> runtime \<Rightarrow> runtime" where
  "latencyAdapter_Observe (latencyAdapter metric) verb u latency rt =
     (let (ctx, err) = tag_New context_Background
                         [tag_Insert TagVerb verb,
                          tag_Insert TagURL (URL_String u)]
      in stats_Record ctx (Float64Measure_M metric (Duration_Seconds latency)) rt)"

datatype resultAdapter = resultAdapter Int64Measure

fun resultAdapter_Increment ::
    "resultAdapter \<Rightarrow> string \<Rightarrow> string \<Rightarrow> string \<Rightarrow> runtime \<Rightarrow> runtime" where
  "resultAdapter_Increment (resultAdapter metric) code method host rt =
     (let (ctx, err) = tag_New context_Background
                         [tag_Insert TagCode code,
                          tag_Insert TagMethod method,
                          tag_Insert TagHost host]
      in stats_Record ctx (Int64Measure_M metric 1) rt)"

datatype intMetric = intMetric "Mutator list" Int64Measure

fun intMetric_Inc :: "intMetric \<Rightarrow> runtime \<Rightarrow> runtime" where
  "intMetric_Inc (intMetric mutators measure') rt =
     snd (stats_RecordWithTags context_Background mutators (Int64Measure_M measure' 1) rt)"

fun intMetric_Dec :: "intMetric \<Rightarrow> runtime \<Rightarrow> runtime" where
  "intMetric_Dec (intMetric mutators measure') rt =
     snd (stats_RecordWithTags context_Background mutators (Int64Measure_M measure' (- 1)) rt)"

datatype floatMetric = floatMetric "Mutator list" Float64Measure

fun floatMetric_Observe :: "floatMetric \<Rightarrow> real \<Rightarrow> runtime \<Rightarrow> runtime" where
  "floatMetric_Observe (floatMetric mutators measure') v rt =
     snd (stats_RecordWithTags context_Background mutators (Float64Measure_M measure' v) rt)"

definition floatMetric_Set :: "floatMetric \<Rightarrow> real \<Rightarrow> runtime \<Rightarrow> runtime" where
  "floatMetric_Set m v rt = floatMetric_Observe m v rt"

text \<open>
  \<open>init\<close> registers one latency adapter and one result adapter with the HTTP client and
  hands the two providers to the reflector and the work queue.
\<close>

definition init_latencyAdapter :: latencyAdapter where
  "init_latencyAdapter = latencyAdapter MeasureRequestLatency"

definition init_resultAdapter :: resultAdapter where
  "init_resultAdapter = resultAdapter MeasureRequestResult"

section \<open>Package metrics: the metric providers\<close>

text \<open>The factory methods of \<open>reflectorMetricsProvider\<close>.\<close>

definition reflector_NewListsMetric :: "string \<Rightarrow> intMetric" where
  "reflector_NewListsMetric name = intMetric [tag_Insert TagName name] MeasureListsTotal"

definition reflector_NewListDurationMetric :: "string \<Rightarrow> floatMetric" where
  "reflector_NewListDurationMetric name = floatMetric [tag_Insert TagName name] MeasureListsDuration"

definition reflector_NewItemsInListMetric :: "string \<Rightarrow> floatMetric" where
  "reflector_NewItemsInListMetric name = floatMetric [tag_Insert TagName name] MeasureItemsPerList"

definition reflector_NewWatchesMetric :: "string \<Rightarrow> intMetric" where
  "reflector_NewWatchesMetric name = intMetric [tag_Insert TagName name] MeasureWatchesTotal"

definition reflector_NewShortWatchesMetric :: "string \<Rightarrow> intMetric" where
  "reflector_NewShortWatchesMetric name = intMetric [tag_Insert TagName name] MeasureShortWatchesTotal"

definition reflector_NewWatchDurationMetric :: "string \<Rightarrow> floatMetric" where
  "reflector_NewWatchDurationMetric name = floatMetric [tag_Insert TagName name] MeasureWatchDuration"

definition reflector_NewItemsInWatchMetric :: "string \<Rightarrow> floatMetric" where
  "reflector_NewItemsInWatchMetric name = floatMetric [tag_Insert TagName name] MeasureItemsPerWatch"

definition reflector_NewLastResourceVersionMetric :: "string \<Rightarrow> floatMetric" where
  "reflector_NewLastResourceVersionMetric name =
     floatMetric [tag_Insert TagName name] MeasureLastResourceVersion"

text \<open>The factory methods of \<open>workqueueMetricsProvider\<close>.\<close>

definition workqueue_NewDepthMetric :: "string \<Rightarrow> intMetric" where
  "workqueue_NewDepthMetric name = intMetric [tag_Insert TagName name] MeasureDepth"

definition workqueue_NewAddsMetric :: "string \<Rightarrow> intMetric" where
  "workqueue_NewAddsMetric name = intMetric [tag_Insert TagName name] MeasureAdds"

definition workqueue_NewLatencyMetric :: "string \<Rightarrow> floatMetric" where
  "workqueue_NewLatencyMetric name = floatMetric [tag_Insert TagName name] MeasureLatency"

definition workqueue_NewWorkDurationMetric :: "string \<Rightarrow> floatMetric" where
  "workqueue_NewWorkDurationMetric name = floatMetric [tag_Insert TagName name] MeasureWorkDuration"

definition workqueue_NewRetriesMetric :: "string \<Rightarrow> intMetric" where
  "workqueue_NewRetriesMetric name = intMetric [tag_Insert TagName name] MeasureRetries"

definition workqueue_NewLongestRunningProcessorMicrosecondsMetric :: "string \<Rightarrow> floatMetric" where
  "workqueue_NewLongestRunningProcessorMicrosecondsMetric name =
     floatMetric [tag_Insert TagName name] MeasureLongestRunning"

definition workqueue_NewUnfinishedWorkSecondsMetric :: "string \<Rightarrow> floatMetric" where
  "workqueue_NewUnfinishedWorkSecondsMetric name =
     floatMetric [tag_Insert TagName name] MeasureUnfinishedWork"

text \<open>
  The interfaces the providers return expose \<open>Inc\<close> and \<open>Dec\<close> on an integer metric
  (counter and gauge) and \<open>Observe\<close> and \<open>Set\<close> on a float metric (summary and settable
  gauge). A caller's use of one adapter is a sequence of such calls.
\<close>

datatype intCall = Inc | Dec

datatype floatCall = Observe real | Set real

fun intMetric_call :: "intMetric \<Rightarrow> intCall \<Rightarrow> runtime \<Rightarrow> runtime" where
  "intMetric_call m Inc rt = intMetric_Inc m rt"
| "intMetric_call m Dec rt = intMetric_Dec m rt"

fun floatMetric_call :: "floatMetric \<Rightarrow> floatCall \<Rightarrow> runtime \<Rightarrow> runtime" where
  "floatMetric_call m (Observe v) rt = floatMetric_Observe m v rt"
| "floatMetric_call m (Set v) rt = floatMetric_Set m v rt"

fun intMetric_calls :: "intMetric \<Rightarrow> intCall list \<Rightarrow> runtime \<Rightarrow> runtime" where
  "intMetric_calls m [] rt = rt"
| "intMetric_calls m (c # cs) rt = intMetric_calls m cs (intMetric_call m c rt)"

fun floatMetric_calls :: "floatMetric \<Rightarrow> floatCall list \<Rightarrow> runtime \<Rightarrow> runtime" where
  "floatMetric_calls m [] rt = rt"
| "floatMetric_calls m (c # cs) rt = floatMetric_calls m cs (floatMetric_call m c rt)"

text \<open>All factory methods of the two providers, by the kind of adapter they return.\<close>

definition int_factories :: "(string \<Rightarrow> intMetric) list" where
  "int_factories =
     [reflector_NewListsMetric, reflector_NewWatchesMetric, reflector_NewShortWatchesMetric,
      workqueue_NewDepthMetric, workqueue_NewAddsMetric, workqueue_NewRetriesMetric]"

definition float_factories :: "(string \<Rightarrow> floatMetric) list" where
  "float_factories =
     [reflector_NewListDurationMetric, reflector_NewItemsInListMetric,
      reflector_NewWatchDurationMetric, reflector_NewItemsInWatchMetric,
      reflector_NewLastResourceVersionMetric,
      workqueue_NewLatencyMetric, workqueue_NewWorkDurationMetric,
      workqueue_NewLongestRunningProcessorMicrosecondsMetric,
      workqueue_NewUnfinishedWorkSecondsMetric]"

section \<open>Package metrics: the views\<close>

text \<open>
  A \<open>view.View\<close> names an aggregation of a measure, grouped by tag keys. The bucket
  bounds of a distribution are the source's decimal constants.
\<close>

datatype Aggregation = view_Count | view_LastValue | view_Distribution "real list"

record View =
  Name :: string
  Description :: string
  Measure :: Measure
  Aggregation :: Aggregation
  TagKeys :: "Key list"

definition DefaultPrometheusDistribution :: Aggregation where
  "DefaultPrometheusDistribution =
     view_Distribution [0.005, 0.01, 0.025, 0.05, 0.1, 0.25, 0.5, 1, 2.5, 5, 10]"

definition ViewRequestLatency :: View where
  "ViewRequestLatency =
     \<lparr>Name = ''rest_client_request_latency_seconds'',
      Description = ''Request latency in seconds. Broken down by verb and URL.'',
      Measure = FloatMeasure MeasureRequestLatency,
      Aggregation = view_Distribution [0.001, 0.002, 0.004, 0.008, 0.016, 0.032, 0.064, 0.128, 0.256, 0.512],
      TagKeys = [TagVerb, TagURL]\<rparr>"

definition ViewRequestResult :: View where
  "ViewRequestResult =
     \<lparr>Name = ''rest_client_requests_total'',
      Description = ''Number of HTTP requests, partitioned by status code, method, and host.'',
      Measure = IntMeasure MeasureRequestResult,
      Aggregation = view_Count,
      TagKeys = [TagCode, TagMethod, TagHost]\<rparr>"

definition ViewListsTotal :: View where
  "ViewListsTotal =
     \<lparr>Name = ''reflector_lists_total'',
      Description = ''Total number of API lists done by the reflectors'',
      Measure = IntMeasure MeasureListsTotal,
      Aggregation = view_Count,
      TagKeys = [TagName]\<rparr>"

definition ViewListsDuration :: View where
  "ViewListsDuration =
     \<lparr>Name = ''reflector_list_duration_seconds'',
      Description = ''How long an API list takes to return and decode for the reflectors'',
      Measure = FloatMeasure MeasureListsDuration,
      Aggregation = DefaultPrometheusDistribution,
      TagKeys = [TagName]\<rparr>"

definition ViewItemsPerList :: View where
  "ViewItemsPerList =
     \<lparr>Name = ''reflector_items_per_list'',
      Description = ''How many items an API list returns to the reflectors'',
      Measure = FloatMeasure MeasureItemsPerList,
      Aggregation = view_Distribution [0, 1, 5, 10, 50, 100],
      TagKeys = [TagName]\<rparr>"

definition ViewWatchesTotal :: View where
  "ViewWatchesTotal =
     \<lparr>Name = ''reflector_watches_total'',
      Description = ''Total number of API watches done by the reflectors'',
      Measure = IntMeasure MeasureWatchesTotal,
      Aggregation = view_Count,
      TagKeys = [TagName]\<rparr>"

definition ViewShortWatchesTotal :: View where
  "ViewShortWatchesTotal =
     \<lparr>Name = ''reflector_short_watches_total'',
      Description = ''Total number of short API watches done by the reflectors'',
      Measure = IntMeasure MeasureShortWatchesTotal,
      Aggregation = view_Count,
      TagKeys = [TagName]\<rparr>"

definition ViewWatchesDuration :: View where
  "ViewWatchesDuration =
     \<lparr>Name = ''reflector_watch_duration_seconds'',
      Description = ''How long an API watch takes to return and decode for the reflectors'',
      Measure = FloatMeasure MeasureWatchDuration,
      Aggregation = DefaultPrometheusDistribution,
      TagKeys = [TagName]\<rparr>"

definition ViewItemsPerWatch :: View where
  "ViewItemsPerWatch =
     \<lparr>Name = ''reflector_items_per_watch'',
      Description = ''How many items an API watch returns to the reflectors'',
      Measure = FloatMeasure MeasureItemsPerWatch,
      Aggregation = view_Distribution [0, 1, 5, 10, 50, 100],
      TagKeys = [TagName]\<rparr>"

definition ViewLastResourceVersion :: View where
  "ViewLastResourceVersion =
     \<lparr>Name = ''reflector_last_resource_version'',
      Description = ''Last resource version seen for the reflectors'',
      Measure = FloatMeasure MeasureLastResourceVersion,
      Aggregation = view_LastValue,
      TagKeys = [TagName]\<rparr>"

definition ViewDepth :: View where
  "ViewDepth =
     \<lparr>Name = ''workqueue_depth'',
      Description = ''Current depth of workqueue'',
      Measure = IntMeasure MeasureDepth,
      Aggregation = view_LastValue,
      TagKeys = [TagName]\<rparr>"

definition ViewAdds :: View where
  "ViewAdds =
     \<lparr>Name = ''workqueue_adds_total'',
      Description = ''Total number of adds handled by workqueue'',
      Measure = IntMeasure MeasureAdds,
      Aggregation = view_Count,
      TagKeys = [TagName]\<rparr>"

definition ViewLatency :: View where
  "ViewLatency =
     \<lparr>Name = ''workqueue_queue_latency_seconds'',
      Description = ''How long in seconds an item stays in workqueue before being requested.'',
      Measure = FloatMeasure MeasureLatency,
      Aggregation = view_Distribution [0.00000001, 0.0000001, 0.000001, 0.00001, 0.0001, 0.001, 0.01, 0.1, 1, 10],
      TagKeys = [TagName]\<rparr>"

definition ViewWorkDuration :: View where
  "ViewWorkDuration =
     \<lparr>Name = ''workqueue_work_duration_seconds'',
      Description = ''How long in seconds processing an item from workqueue takes.'',
      Measure = FloatMeasure MeasureWorkDuration,
      Aggregation = view_Distribution [0.00000001, 0.0000001, 0.000001, 0.00001, 0.0001, 0.001, 0.01, 0.1, 1, 10],
      TagKeys = [TagName]\<rparr>"

definition ViewRetries :: View where
  "ViewRetries =
     \<lparr>Name = ''workqueue_retries_total'',
      Description = ''Total number of retries handled by workqueue'',
      Measure = IntMeasure MeasureRetries,
      Aggregation = view_Count,
      TagKeys = [TagName]\<rparr>"

definition ViewLongestRunning :: View where
  "ViewLongestRunning =
     \<lparr>Name = ''workqueue_longest_running_processor_microseconds'',
      Description = ''How many microseconds has the longest running processor for workqueue been running.'',
      Measure = FloatMeasure MeasureLongestRunning,
      Aggregation = view_LastValue,
      TagKeys = [TagName]\<rparr>"

definition ViewUnfinishedWork :: View where
  "ViewUnfinishedWork =
     \<lparr>Name = ''workqueue_unfinished_work_seconds'',
      Description = ''How many seconds of work has done that is in progress and hasn't been observed '' @
         ''by work_duration. Large values indicate stuck threads. One can deduce the '' @
         ''number of stuck threads by observing the rate at which this increases.'',
      Measure = FloatMeasure MeasureUnfinishedWork,
      Aggregation = view_LastValue,
      TagKeys = [TagName]\<rparr>"

definition DefaultViews :: "View list" where
  "DefaultViews =
     [ViewRequestLatency,
      ViewRequestResult,
      ViewListsTotal,
      ViewListsDuration,
      ViewItemsPerList,
      ViewWatchesTotal,
      ViewShortWatchesTotal,
      ViewWatchesDuration,
      ViewItemsPerWatch,
      ViewLastResourceVersion,
      ViewDepth,
      ViewAdds,
      ViewLatency,
      ViewWorkDuration,
      ViewRetries,
      ViewLongestRunning,
      ViewUnfinishedWork]"

section \<open>Package webhook/metrics\<close>

text \<open>
  The webhook package declares two measures, two tag keys and two views of its own, under
  names that the core package also uses; they carry the prefix \<open>webhook\<close> here where the
  names collide.
\<close>

definition MeasureTotalRequests :: Int64Measure where
  "MeasureTotalRequests = stats_Int64
     ''sigs.kubernetes.io/controller-runtime/measures/webhook_requests_total''
     ''Total number of admission requests''
     UnitNone"

definition webhook_MeasureRequestLatency :: Float64Measure where
  "webhook_MeasureRequestLatency = stats_Float64
     ''sigs.kubernetes.io/controller-runtime/measures/webhook_latency_seconds''
     ''Latency of processing admission requests''
     ''s''"

definition webhook_mustNewTagKey :: "string \<Rightarrow> error + Key" where
  "webhook_mustNewTagKey k =
     (case tag_NewKey k of
        Inl err \<Rightarrow> Inl err
      | Inr tagKey \<Rightarrow> Inr tagKey)"

definition TagWebhook :: Key where
  "TagWebhook = projr (webhook_mustNewTagKey ''webhook'')"

definition TagSucceeded :: Key where
  "TagSucceeded = projr (webhook_mustNewTagKey ''succeeded'')"

definition webhook_DefaultPrometheusDistribution :: Aggregation where
  "webhook_DefaultPrometheusDistribution =
     view_Distribution [0.005, 0.01, 0.025, 0.05, 0.1, 0.25, 0.5, 1, 2.5, 5, 10]"

definition ViewTotalRequests :: View where
  "ViewTotalRequests =
     \<lparr>Name = ''controller_runtime_webhook_requests_total'',
      Description = ''Total number of admission requests'',
      Measure = IntMeasure MeasureTotalRequests,
      Aggregation = view_Count,
      TagKeys = [TagWebhook, TagSucceeded]\<rparr>"

definition webhook_ViewRequestLatency :: View where
  "webhook_ViewRequestLatency =
     \<lparr>Name = ''controller_runtime_webhook_latency_seconds'',
      Description = ''Latency of processing admission requests'',
      Measure = FloatMeasure webhook_MeasureRequestLatency,
      Aggregation = webhook_DefaultPrometheusDistribution,
      TagKeys = [TagWebhook]\<rparr>"

definition webhook_DefaultViews :: "View list" where
  "webhook_DefaultViews = [ViewTotalRequests, webhook_ViewRequestLatency]"

section \<open>The recording operations of the system\<close>

text \<open>
  One value per recording method call, so that a statement can range over all of them.
\<close>

datatype recording =
    Latency_Observe latencyAdapter string URL Duration
  | Result_Increment resultAdapter string string string
  | Int_Inc intMetric
  | Int_Dec intMetric
  | Float_Observe floatMetric real
  | Float_Set floatMetric real

fun record_op :: "recording \<Rightarrow> runtime \<Rightarrow> runtime" where
  "record_op (Latency_Observe a verb u latency) rt = latencyAdapter_Observe a verb u latency rt"
| "record_op (Result_Increment a code method host) rt = resultAdapter_Increment a code method host rt"
| "record_op (Int_Inc m) rt = intMetric_Inc m rt"
| "record_op (Int_Dec m) rt = intMetric_Dec m rt"
| "record_op (Float_Observe m v) rt = floatMetric_Observe m v rt"
| "record_op (Float_Set m v) rt = floatMetric_Set m v rt"

text \<open>
  Every recording the adapters of the system can make with given tag values: the two
  adapters that \<open>init\<close> registers, and every method of every adapter that a factory
  method of the two providers returns for a name.
\<close>

definition system_recordings ::
    "string \<Rightarrow> URL \<Rightarrow> Duration \<Rightarrow> string \<Rightarrow> string \<Rightarrow> string \<Rightarrow> string \<Rightarrow> real
      \<Rightarrow> recording list" where
  "system_recordings verb u latency code method host name v =
     [Latency_Observe init_latencyAdapter verb u latency,
      Result_Increment init_resultAdapter code method host]
     @ concat (map (\<lambda>f. [Int_Inc (f name), Int_Dec (f name)]) int_factories)
     @ concat (map (\<lambda>g. [Float_Observe (g name) v, Float_Set (g name) v]) float_factories)"

text \<open>The measure a recording is made against, read off the call it hands over.\<close>

definition recording_Measure :: "recording \<Rightarrow> Measure" where
  "recording_Measure r = Measurement_Measure (call_Measurement (last (record_op r [])))"

text \<open>The tag keys of the tag map a recording is made under; none when the runtime
  rejects the recording.\<close>

definition recording_keys :: "recording \<Rightarrow> Key set" where
  "recording_keys r =
     (case call_tags (last (record_op r [])) of None \<Rightarrow> {} | Some m \<Rightarrow> dom m)"

text \<open>
  Modelled from the spec: the code of the webhook package that records against its two
  measures is not among the sources. The tag keys it populates are taken from the
  declarations' documentation: \<open>MeasureTotalRequests\<close> "has two tags: webhook refers to
  the webhook path and success refers to the webhook result", \<open>MeasureRequestLatency\<close>
  "has one tag: webhook refers to the webhook path".
\<close>

definition webhook_recorded_keys :: "(Measure \<times> Key list) list" where
  "webhook_recorded_keys =
     [(IntMeasure MeasureTotalRequests, [TagWebhook, TagSucceeded]),
      (FloatMeasure webhook_MeasureRequestLatency, [TagWebhook])]"

text \<open>The measures the two packages declare, in the order of the source.\<close>

definition declared_Measures :: "Measure list" where
  "declared_Measures =
     [FloatMeasure MeasureRequestLatency, IntMeasure MeasureRequestResult,
      IntMeasure MeasureListsTotal, FloatMeasure MeasureListsDuration,
      FloatMeasure MeasureItemsPerList, IntMeasure MeasureWatchesTotal,
      IntMeasure MeasureShortWatchesTotal, FloatMeasure MeasureWatchDuration,
      FloatMeasure MeasureItemsPerWatch, FloatMeasure MeasureLastResourceVersion,
      IntMeasure MeasureDepth, IntMeasure MeasureAdds, FloatMeasure MeasureLatency,
      FloatMeasure MeasureWorkDuration, IntMeasure MeasureRetries,
      FloatMeasure MeasureLongestRunning, FloatMeasure MeasureUnfinishedWork]"

definition webhook_declared_Measures :: "Measure list" where
  "webhook_declared_Measures =
     [IntMeasure MeasureTotalRequests, FloatMeasure webhook_MeasureRequestLatency]"

section \<open>Auxiliary facts\<close>

lemma tag_key_values:
  "TagVerb = Key ''verb''" "TagURL = Key ''url''" "TagCode = Key ''code''"
  "TagMethod = Key ''method''" "TagHost = Key ''host''" "TagName = Key ''name''"
  "TagWebhook = Key ''webhook''" "TagSucceeded = Key ''succeeded''"
  by (simp_all add: TagVerb_def TagURL_def TagCode_def TagMethod_def TagHost_def TagName_def
        TagWebhook_def TagSucceeded_def mustNewTagKey_def webhook_mustNewTagKey_def
        tag_NewKey_def checkKeyName_def isASCII_def)

lemma floor_log2_small: "n \<le> 1 \<Longrightarrow> floor_log2 n = 0"
  by (simp add: floor_log2.simps)

lemma floor_log2_step: "1 < n \<Longrightarrow> floor_log2 n = 1 + floor_log2 (n div 2)"
  by (subst floor_log2.simps) simp

lemmas seconds_eval =
  Duration_Seconds_def Second_def signed_divide_int_def signed_modulo_int_def
  float64_def float64_exponent_def round_half_even_def Let_def floor_log2_small floor_log2_step











lemma intMetric_call_eq:
  "intMetric_call (intMetric mus ms) c rt =
     rt @ [RecordWithTags_call context_Background mus
             (Measurement (case c of Inc \<Rightarrow> 1 | Dec \<Rightarrow> - 1) (IntMeasure ms))]"
  by (cases c) (simp_all add: stats_RecordWithTags_def Int64Measure_M_def)

lemma intMetric_calls_eq:
  "intMetric_calls (intMetric mus ms) cs rt =
     rt @ map (\<lambda>c. RecordWithTags_call context_Background mus
                      (Measurement (case c of Inc \<Rightarrow> 1 | Dec \<Rightarrow> - 1) (IntMeasure ms))) cs"
  by (induction cs arbitrary: rt) (simp_all add: intMetric_call_eq del: intMetric_call.simps)

lemma floatMetric_call_eq:
  "floatMetric_call (floatMetric mus ms) c rt =
     rt @ [RecordWithTags_call context_Background mus
             (Measurement (case c of Observe v \<Rightarrow> v | Set v \<Rightarrow> v) (FloatMeasure ms))]"
  by (cases c) (simp_all add: floatMetric_Set_def stats_RecordWithTags_def Float64Measure_M_def)

lemma floatMetric_calls_eq:
  "floatMetric_calls (floatMetric mus ms) cs rt =
     rt @ map (\<lambda>c. RecordWithTags_call context_Background mus
                      (Measurement (case c of Observe v \<Rightarrow> v | Set v \<Rightarrow> v) (FloatMeasure ms))) cs"
  by (induction cs arbitrary: rt) (simp_all add: floatMetric_call_eq del: floatMetric_call.simps)

lemma tag_New_name:
  "tag_New context_Background [tag_Insert k n] =
     (if checkValue n then (Map.empty(k \<mapsto> n), None) else (Map.empty, Some errInvalidValue))"
  by (simp add: tag_New_def context_Background_def)

lemma sum_int_calls:
  "sum_list (map (\<lambda>c. case c of Inc \<Rightarrow> (1::real) | Dec \<Rightarrow> - 1) cs) =
     real (count_list cs Inc) - real (count_list cs Dec)"
  by (induction cs) (auto split: intCall.splits)

section \<open>The name-bound adapters\<close>

text \<open>
  Claim C1. A name-bound adapter is what a factory method of the reflector or work-queue
  provider returns for a name \<open>n\<close>. Whatever sequence of \<open>Inc\<close>/\<open>Dec\<close> (or
  \<open>Observe\<close>/\<open>Set\<close>) calls is made on it, starting from any runtime state, each call
  hands the runtime one record, and every one of these records carries the tag
  (name \<rightarrow> \<open>n\<close>): the mutator \<open>tag.Insert(TagName, n)\<close> is handed over with it, the tag
  map the runtime records it under maps \<open>TagName\<close> to \<open>n\<close>, and the runtime rejects the
  record only when \<open>n\<close> is not a valid tag value.
\<close>

theorem name_bound_adapter_records_carry_name:
  "(f \<in> set int_factories \<longrightarrow>
      (\<exists>new. intMetric_calls (f n) cs rt = rt @ new \<and> length new = length cs \<and>
         (\<forall>c \<in> set new.
            tag_Insert TagName n \<in> set (call_mutators c) \<and>
            (case call_tags c of Some m \<Rightarrow> m TagName = Some n | None \<Rightarrow> \<not> checkValue n))))
   \<and> (g \<in> set float_factories \<longrightarrow>
      (\<exists>new. floatMetric_calls (g n) ds rt = rt @ new \<and> length new = length ds \<and>
         (\<forall>c \<in> set new.
            tag_Insert TagName n \<in> set (call_mutators c) \<and>
            (case call_tags c of Some m \<Rightarrow> m TagName = Some n | None \<Rightarrow> \<not> checkValue n))))"
proof (intro conjI impI)
  assume "f \<in> set int_factories"
  then obtain ms where f: "f n = intMetric [tag_Insert TagName n] ms"
    by (auto simp: int_factories_def reflector_NewListsMetric_def reflector_NewWatchesMetric_def
        reflector_NewShortWatchesMetric_def workqueue_NewDepthMetric_def
        workqueue_NewAddsMetric_def workqueue_NewRetriesMetric_def)
  show "\<exists>new. intMetric_calls (f n) cs rt = rt @ new \<and> length new = length cs \<and>
         (\<forall>c \<in> set new.
            tag_Insert TagName n \<in> set (call_mutators c) \<and>
            (case call_tags c of Some m \<Rightarrow> m TagName = Some n | None \<Rightarrow> \<not> checkValue n))"
    unfolding f intMetric_calls_eq
    by (rule exI [of _ "map _ cs"]) (auto simp: tag_New_name)
next
  assume "g \<in> set float_factories"
  then obtain ms where g: "g n = floatMetric [tag_Insert TagName n] ms"
    by (auto simp: float_factories_def reflector_NewListDurationMetric_def
        reflector_NewItemsInListMetric_def reflector_NewWatchDurationMetric_def
        reflector_NewItemsInWatchMetric_def reflector_NewLastResourceVersionMetric_def
        workqueue_NewLatencyMetric_def workqueue_NewWorkDurationMetric_def
        workqueue_NewLongestRunningProcessorMicrosecondsMetric_def
        workqueue_NewUnfinishedWorkSecondsMetric_def)
  show "\<exists>new. floatMetric_calls (g n) ds rt = rt @ new \<and> length new = length ds \<and>
         (\<forall>c \<in> set new.
            tag_Insert TagName n \<in> set (call_mutators c) \<and>
            (case call_tags c of Some m \<Rightarrow> m TagName = Some n | None \<Rightarrow> \<not> checkValue n))"
    unfolding g floatMetric_calls_eq
    by (rule exI [of _ "map _ ds"]) (auto simp: tag_New_name)
qed

theorem name_bound_adapter_records_carry_name_witness:
  "workqueue_NewDepthMetric \<in> set int_factories \<and>
   map call_mutators (intMetric_calls (workqueue_NewDepthMetric ''foo'') [Inc, Dec, Inc] []) =
     [[tag_Insert TagName ''foo''], [tag_Insert TagName ''foo''], [tag_Insert TagName ''foo'']] \<and>
   map (\<lambda>c. map_option (\<lambda>m. m TagName) (call_tags c))
       (intMetric_calls (workqueue_NewDepthMetric ''foo'') [Inc, Dec, Inc] []) =
     [Some (Some ''foo''), Some (Some ''foo''), Some (Some ''foo'')] \<and>
   reflector_NewLastResourceVersionMetric \<in> set float_factories \<and>
   map call_mutators
       (floatMetric_calls (reflector_NewLastResourceVersionMetric ''foo'') [Set 5, Observe 3] []) =
     [[tag_Insert TagName ''foo''], [tag_Insert TagName ''foo'']]"
  using name_bound_adapter_records_carry_name
    [of workqueue_NewDepthMetric "''foo''" "[Inc, Dec, Inc]" "[]"
        reflector_NewLastResourceVersionMetric "[Set 5, Observe 3]"]
  by (simp add: int_factories_def float_factories_def workqueue_NewDepthMetric_def
      reflector_NewLastResourceVersionMetric_def stats_RecordWithTags_def floatMetric_Set_def
      tag_New_name checkValue_def isASCII_def)

text \<open>
  Claim C2. On every float adapter \<open>Set(v)\<close> does exactly what \<open>Observe(v)\<close> does, and
  \<open>Set(v)\<close> followed by \<open>Observe(v2)\<close> hands the runtime two separate records, the
  first with value \<open>v\<close> and the second with value \<open>v2\<close>, both against the adapter's
  measure and with the adapter's tags.
\<close>

theorem Set_is_Observe:
  "floatMetric_Set (floatMetric mus ms) v rt = floatMetric_Observe (floatMetric mus ms) v rt \<and>
   floatMetric_Observe (floatMetric mus ms) v2 (floatMetric_Set (floatMetric mus ms) v rt) =
     rt @ [RecordWithTags_call context_Background mus (Measurement v (FloatMeasure ms)),
           RecordWithTags_call context_Background mus (Measurement v2 (FloatMeasure ms))]"
  by (simp add: floatMetric_Set_def stats_RecordWithTags_def Float64Measure_M_def)

theorem Set_is_Observe_witness:
  "map (Measurement_Value \<circ> call_Measurement)
     (floatMetric_Observe (workqueue_NewUnfinishedWorkSecondsMetric ''queue-A'') 3
        (floatMetric_Set (workqueue_NewUnfinishedWorkSecondsMetric ''queue-A'') 5 [])) = [5, 3]"
  using Set_is_Observe [of "[tag_Insert TagName ''queue-A'']" MeasureUnfinishedWork 5 "[]" 3]
  by (simp add: workqueue_NewUnfinishedWorkSecondsMetric_def floatMetric_Set_def
      stats_RecordWithTags_def Float64Measure_M_def)

text \<open>
  Claim C3. On every integer adapter \<open>Inc\<close> hands over one record of value 1 and \<open>Dec\<close>
  one record of value -1; a sequence of calls with N times \<open>Inc\<close> and M times \<open>Dec\<close>
  hands over one record per call, and their values sum to N - M. A record is the call
  handed to the runtime's recording entry point; summing, and dropping a record whose tag
  value the runtime rejects, is the runtime's part.
\<close>

theorem Inc_Dec_net_delta:
  "intMetric_Inc (intMetric mus ms) rt =
     rt @ [RecordWithTags_call context_Background mus (Measurement 1 (IntMeasure ms))] \<and>
   intMetric_Dec (intMetric mus ms) rt =
     rt @ [RecordWithTags_call context_Background mus (Measurement (- 1) (IntMeasure ms))] \<and>
   (\<exists>new. intMetric_calls (intMetric mus ms) cs rt = rt @ new \<and> length new = length cs \<and>
      sum_list (map (Measurement_Value \<circ> call_Measurement) new) =
        real (count_list cs Inc) - real (count_list cs Dec))"
proof (intro conjI)
  show "\<exists>new. intMetric_calls (intMetric mus ms) cs rt = rt @ new \<and> length new = length cs \<and>
      sum_list (map (Measurement_Value \<circ> call_Measurement) new) =
        real (count_list cs Inc) - real (count_list cs Dec)"
    unfolding intMetric_calls_eq
    by (simp add: comp_def sum_int_calls)
qed (simp_all add: stats_RecordWithTags_def Int64Measure_M_def)

theorem Inc_Dec_net_delta_witness:
  "sum_list (map (Measurement_Value \<circ> call_Measurement)
     (intMetric_calls (workqueue_NewAddsMetric ''q'') [Inc, Inc, Dec, Inc] [])) = 3 - 1"
  using Inc_Dec_net_delta [of "[tag_Insert TagName ''q'']" MeasureAdds "[]" "[Inc, Inc, Dec, Inc]"]
  by (simp add: workqueue_NewAddsMetric_def stats_RecordWithTags_def Int64Measure_M_def)

text \<open>
  Claim C10. The adapter that \<open>NewDepthMetric\<close> returns is an integer adapter, whose only
  operations are \<open>Inc\<close> and \<open>Dec\<close>: every record it hands over is against
  \<open>MeasureDepth\<close> and has value 1 or -1, never the depth itself, while \<open>ViewDepth\<close>
  aggregates \<open>MeasureDepth\<close> by last value.
\<close>

theorem depth_adapter_records_unit_steps:
  "(\<exists>new. intMetric_calls (workqueue_NewDepthMetric name) cs rt = rt @ new \<and>
      length new = length cs \<and>
      (\<forall>c \<in> set new.
         Measurement_Measure (call_Measurement c) = IntMeasure MeasureDepth \<and>
         (Measurement_Value (call_Measurement c) = 1 \<or>
          Measurement_Value (call_Measurement c) = - 1))) \<and>
   Measure ViewDepth = IntMeasure MeasureDepth \<and>
   Aggregation ViewDepth = view_LastValue"
proof (intro conjI)
  show "\<exists>new. intMetric_calls (workqueue_NewDepthMetric name) cs rt = rt @ new \<and>
      length new = length cs \<and>
      (\<forall>c \<in> set new.
         Measurement_Measure (call_Measurement c) = IntMeasure MeasureDepth \<and>
         (Measurement_Value (call_Measurement c) = 1 \<or>
          Measurement_Value (call_Measurement c) = - 1))"
    unfolding workqueue_NewDepthMetric_def intMetric_calls_eq
    by (auto split: intCall.splits)
qed (simp_all add: ViewDepth_def)

theorem depth_adapter_records_unit_steps_witness:
  "map (Measurement_Value \<circ> call_Measurement)
     (intMetric_calls (workqueue_NewDepthMetric ''queue-A'') [Inc, Inc, Dec] []) = [1, 1, - 1] \<and>
   Aggregation ViewDepth = view_LastValue"
  using depth_adapter_records_unit_steps [of "''queue-A''" "[Inc, Inc, Dec]" "[]"]
  by (simp add: workqueue_NewDepthMetric_def ViewDepth_def stats_RecordWithTags_def
      Int64Measure_M_def)

section \<open>The client adapters\<close>

lemma tag_keys_distinct:
  "distinct [TagVerb, TagURL, TagCode, TagMethod, TagHost, TagName, TagWebhook, TagSucceeded]"
  by (simp add: tag_key_values)

lemma tag_New_latency:
  "tag_New context_Background [tag_Insert TagVerb verb, tag_Insert TagURL url] =
     (if checkValue verb \<and> checkValue url
      then ([TagVerb \<mapsto> verb, TagURL \<mapsto> url], None)
      else (Map.empty, Some errInvalidValue))"
  by (simp add: tag_New_def context_Background_def tag_key_values)

lemma tag_New_result:
  "tag_New context_Background
     [tag_Insert TagCode code, tag_Insert TagMethod method, tag_Insert TagHost host] =
     (if checkValue code \<and> checkValue method \<and> checkValue host
      then ([TagCode \<mapsto> code, TagMethod \<mapsto> method, TagHost \<mapsto> host], None)
      else (Map.empty, Some errInvalidValue))"
  by (simp add: tag_New_def context_Background_def tag_key_values)



text \<open>
  Claim C6. No recording operation of an adapter passes on an error. The Go methods have
  no result, so an error could only show in what they do to the runtime. Whatever the
  library call inside an operation returns as its error (\<open>err\<close>: none, or an error), the
  effect of the operation is fixed and does not contain it: a client adapter records its
  measurement with \<open>stats.Record\<close> under the context that \<open>tag.New\<close> returned, which is
  the background context when \<open>tag.New\<close> failed; a name-bound adapter leaves the runtime
  as \<open>stats.RecordWithTags\<close> left it, which has received that one call and nothing else.
\<close>

theorem recording_errors_are_discarded:
  "(tag_New context_Background
      [tag_Insert TagVerb verb, tag_Insert TagURL (URL_String u)] = (ctx, err) \<longrightarrow>
      latencyAdapter_Observe (latencyAdapter metric) verb u latency rt =
        rt @ [Record_call ctx (Float64Measure_M metric (Duration_Seconds latency))] \<and>
      (err \<noteq> None \<longrightarrow> ctx = context_Background)) \<and>
   (tag_New context_Background
      [tag_Insert TagCode code, tag_Insert TagMethod meth, tag_Insert TagHost host]
        = (ctx', err') \<longrightarrow>
      resultAdapter_Increment (resultAdapter metric') code meth host rt =
        rt @ [Record_call ctx' (Int64Measure_M metric' 1)] \<and>
      (err' \<noteq> None \<longrightarrow> ctx' = context_Background)) \<and>
   (stats_RecordWithTags context_Background mus (Int64Measure_M ms 1) rt = (err1, rt1) \<longrightarrow>
      intMetric_Inc (intMetric mus ms) rt = rt1 \<and>
      rt1 = rt @ [RecordWithTags_call context_Background mus (Int64Measure_M ms 1)]) \<and>
   (stats_RecordWithTags context_Background mus (Int64Measure_M ms (- 1)) rt = (err2, rt2) \<longrightarrow>
      intMetric_Dec (intMetric mus ms) rt = rt2 \<and>
      rt2 = rt @ [RecordWithTags_call context_Background mus (Int64Measure_M ms (- 1))]) \<and>
   (stats_RecordWithTags context_Background fmus (Float64Measure_M fms v) rt = (err3, rt3) \<longrightarrow>
      floatMetric_Observe (floatMetric fmus fms) v rt = rt3 \<and>
      floatMetric_Set (floatMetric fmus fms) v rt = rt3 \<and>
      rt3 = rt @ [RecordWithTags_call context_Background fmus (Float64Measure_M fms v)])"
  by (auto simp: stats_Record_def stats_RecordWithTags_def floatMetric_Set_def tag_New_def
      split: sum.splits)

theorem recording_errors_are_discarded_witness:
  "tag_New context_Background
     [tag_Insert TagVerb [CHR 0x07], tag_Insert TagURL (URL_String (URL ''https://api/pods''))]
     = (context_Background, Some errInvalidValue) \<and>
   latencyAdapter_Observe init_latencyAdapter [CHR 0x07] (URL ''https://api/pods'') 1500000000 [] =
     [Record_call context_Background (Measurement (3 / 2) (FloatMeasure MeasureRequestLatency))] \<and>
   tag_New context_Background
     [tag_Insert TagCode ''200'', tag_Insert TagMethod ''GET'', tag_Insert TagHost [CHR 0x07]]
     = (context_Background, Some errInvalidValue) \<and>
   resultAdapter_Increment init_resultAdapter ''200'' ''GET'' [CHR 0x07] [] =
     [Record_call context_Background (Measurement 1 (IntMeasure MeasureRequestResult))] \<and>
   stats_RecordWithTags context_Background [tag_Insert TagName [CHR 0x07]]
       (Int64Measure_M MeasureDepth 1) [] =
     (Some errInvalidValue,
      [RecordWithTags_call context_Background [tag_Insert TagName [CHR 0x07]]
         (Measurement 1 (IntMeasure MeasureDepth))]) \<and>
   intMetric_Inc (workqueue_NewDepthMetric [CHR 0x07]) [] =
     [RecordWithTags_call context_Background [tag_Insert TagName [CHR 0x07]]
        (Measurement 1 (IntMeasure MeasureDepth))] \<and>
   floatMetric_Set (workqueue_NewLatencyMetric [CHR 0x07]) 5 [] =
     [RecordWithTags_call context_Background [tag_Insert TagName [CHR 0x07]]
        (Measurement 5 (FloatMeasure MeasureLatency))]"
proof -
  have s: "Duration_Seconds 1500000000 = 3 / 2"
    by (simp add: seconds_eval)
  have v: "checkValue ''https://api/pods''" "checkValue ''200''" "checkValue ''GET''"
    "\<not> checkValue [CHR 0x07]"
    by (simp_all add: checkValue_def isASCII_def)
  have a: "tag_New context_Background
     [tag_Insert TagVerb [CHR 0x07], tag_Insert TagURL (URL_String (URL ''https://api/pods''))]
     = (context_Background, Some errInvalidValue)"
    by (simp add: tag_New_latency v) (simp add: context_Background_def)
  have b: "tag_New context_Background
     [tag_Insert TagCode ''200'', tag_Insert TagMethod ''GET'', tag_Insert TagHost [CHR 0x07]]
     = (context_Background, Some errInvalidValue)"
    by (simp add: tag_New_result v) (simp add: context_Background_def)
  have c: "stats_RecordWithTags context_Background [tag_Insert TagName [CHR 0x07]]
       (Int64Measure_M MeasureDepth 1) [] =
     (Some errInvalidValue,
      [RecordWithTags_call context_Background [tag_Insert TagName [CHR 0x07]]
         (Measurement 1 (IntMeasure MeasureDepth))])"
    by (simp add: stats_RecordWithTags_def tag_New_name v Int64Measure_M_def)
  have d: "stats_RecordWithTags context_Background [tag_Insert TagName [CHR 0x07]]
       (Float64Measure_M MeasureLatency 5) [] =
     (Some errInvalidValue,
      [RecordWithTags_call context_Background [tag_Insert TagName [CHR 0x07]]
         (Measurement 5 (FloatMeasure MeasureLatency))])"
    by (simp add: stats_RecordWithTags_def tag_New_name v Float64Measure_M_def)
  show ?thesis
    using a b c d
      recording_errors_are_discarded
        [where verb = "[CHR 0x07]" and u = "URL ''https://api/pods''"
           and ctx = context_Background and err = "Some errInvalidValue"
           and metric = MeasureRequestLatency and latency = 1500000000 and rt = "[]"
           and code = "''200''" and meth = "''GET''" and host = "[CHR 0x07]"
           and ctx' = context_Background and err' = "Some errInvalidValue"
           and metric' = MeasureRequestResult
           and mus = "[tag_Insert TagName [CHR 0x07]]" and ms = MeasureDepth
           and ?err1.0 = "Some errInvalidValue"
           and ?rt1.0 = "[RecordWithTags_call context_Background [tag_Insert TagName [CHR 0x07]]
                      (Measurement 1 (IntMeasure MeasureDepth))]"
           and fmus = "[tag_Insert TagName [CHR 0x07]]" and fms = MeasureLatency and v = 5
           and ?err3.0 = "Some errInvalidValue"
           and ?rt3.0 = "[RecordWithTags_call context_Background [tag_Insert TagName [CHR 0x07]]
                      (Measurement 5 (FloatMeasure MeasureLatency))]"]
    by (simp add: init_latencyAdapter_def init_resultAdapter_def workqueue_NewDepthMetric_def
        workqueue_NewLatencyMetric_def s Float64Measure_M_def Int64Measure_M_def)
qed

section \<open>The catalog: names, views and tag keys\<close>

lemmas measure_defs =
  MeasureRequestLatency_def MeasureRequestResult_def MeasureListsTotal_def
  MeasureListsDuration_def MeasureItemsPerList_def MeasureWatchesTotal_def
  MeasureShortWatchesTotal_def MeasureWatchDuration_def MeasureItemsPerWatch_def
  MeasureLastResourceVersion_def MeasureDepth_def MeasureAdds_def MeasureLatency_def
  MeasureWorkDuration_def MeasureRetries_def MeasureLongestRunning_def
  MeasureUnfinishedWork_def MeasureTotalRequests_def webhook_MeasureRequestLatency_def

lemmas view_defs =
  ViewRequestLatency_def ViewRequestResult_def ViewListsTotal_def ViewListsDuration_def
  ViewItemsPerList_def ViewWatchesTotal_def ViewShortWatchesTotal_def
  ViewWatchesDuration_def ViewItemsPerWatch_def ViewLastResourceVersion_def ViewDepth_def
  ViewAdds_def ViewLatency_def ViewWorkDuration_def ViewRetries_def ViewLongestRunning_def
  ViewUnfinishedWork_def ViewTotalRequests_def webhook_ViewRequestLatency_def

lemma measure_names_distinct:
  "distinct (map Measure_Name (declared_Measures @ webhook_declared_Measures))"
  by (simp add: declared_Measures_def webhook_declared_Measures_def measure_defs)

lemma view_names_distinct:
  "distinct (map Name (DefaultViews @ webhook_DefaultViews))"
  by (simp add: DefaultViews_def webhook_DefaultViews_def view_defs)

text \<open>
  Claim C7. Across the core and the webhook package no two declared measures have the
  same name, and no two declared views have the same name.
\<close>

theorem names_globally_unique:
  "distinct (map Measure_Name (declared_Measures @ webhook_declared_Measures)) \<and>
   distinct (map Name (DefaultViews @ webhook_DefaultViews))"
  using measure_names_distinct view_names_distinct by simp

text \<open>
  Claim C8. \<open>DefaultViews\<close> of the core package is the list of its 17 declared views in
  the order of their declaration, each exactly once; \<open>DefaultViews\<close> of the webhook
  package is the list of its 2 declared views, each exactly once.
\<close>

theorem DefaultViews_complete:
  "DefaultViews =
     [ViewRequestLatency, ViewRequestResult, ViewListsTotal, ViewListsDuration,
      ViewItemsPerList, ViewWatchesTotal, ViewShortWatchesTotal, ViewWatchesDuration,
      ViewItemsPerWatch, ViewLastResourceVersion, ViewDepth, ViewAdds, ViewLatency,
      ViewWorkDuration, ViewRetries, ViewLongestRunning, ViewUnfinishedWork] \<and>
   length DefaultViews = 17 \<and> distinct DefaultViews \<and>
   webhook_DefaultViews = [ViewTotalRequests, webhook_ViewRequestLatency] \<and>
   length webhook_DefaultViews = 2 \<and> distinct webhook_DefaultViews"
proof -
  have "distinct (DefaultViews @ webhook_DefaultViews)"
    using view_names_distinct unfolding distinct_map by blast
  then have "distinct DefaultViews" "distinct webhook_DefaultViews"
    by simp_all
  then show ?thesis
    by (simp add: DefaultViews_def webhook_DefaultViews_def)
qed

text \<open>
  Claim C9. Each of the eight tag-key names declared in the two packages has between 1
  and 255 characters, all printable US-ASCII, so \<open>mustNewTagKey\<close> returns the key and
  does not panic: the package variables hold the keys of these names.
\<close>

theorem tag_key_names_valid:
  "list_all (\<lambda>k. 1 \<le> length k \<and> length k \<le> 255 \<and> isASCII k \<and>
                  mustNewTagKey k = Inr (Key k))
     [''verb'', ''url'', ''code'', ''method'', ''host'', ''name''] \<and>
   list_all (\<lambda>k. 1 \<le> length k \<and> length k \<le> 255 \<and> isASCII k \<and>
                  webhook_mustNewTagKey k = Inr (Key k))
     [''webhook'', ''succeeded''] \<and>
   [TagVerb, TagURL, TagCode, TagMethod, TagHost, TagName, TagWebhook, TagSucceeded] =
     map Key [''verb'', ''url'', ''code'', ''method'', ''host'', ''name'', ''webhook'',
              ''succeeded'']"
  by (simp add: mustNewTagKey_def webhook_mustNewTagKey_def tag_NewKey_def checkKeyName_def
      isASCII_def tag_key_values)

section \<open>Views against the adapters\<close>

lemma declared_Measures_distinct: "distinct (declared_Measures @ webhook_declared_Measures)"
  using measure_names_distinct unfolding distinct_map by blast

lemma recording_Measure_simps:
  "recording_Measure (Latency_Observe (latencyAdapter fm) verb u latency) = FloatMeasure fm"
  "recording_Measure (Result_Increment (resultAdapter im) code method host) = IntMeasure im"
  "recording_Measure (Int_Inc (intMetric mus im)) = IntMeasure im"
  "recording_Measure (Int_Dec (intMetric mus im)) = IntMeasure im"
  "recording_Measure (Float_Observe (floatMetric mus fm) v) = FloatMeasure fm"
  "recording_Measure (Float_Set (floatMetric mus fm) v) = FloatMeasure fm"
  by (simp_all add: recording_Measure_def stats_Record_def stats_RecordWithTags_def
      floatMetric_Set_def Int64Measure_M_def Float64Measure_M_def split: prod.splits)

lemma recording_keys_simps:
  "checkValue verb \<Longrightarrow> checkValue (URL_String u) \<Longrightarrow>
     recording_keys (Latency_Observe (latencyAdapter fm) verb u latency) = {TagVerb, TagURL}"
  "checkValue code \<Longrightarrow> checkValue method \<Longrightarrow> checkValue host \<Longrightarrow>
     recording_keys (Result_Increment (resultAdapter im) code method host) =
       {TagCode, TagMethod, TagHost}"
  "checkValue n \<Longrightarrow> recording_keys (Int_Inc (intMetric [tag_Insert k n] im)) = {k}"
  "checkValue n \<Longrightarrow> recording_keys (Int_Dec (intMetric [tag_Insert k n] im)) = {k}"
  "checkValue n \<Longrightarrow> recording_keys (Float_Observe (floatMetric [tag_Insert k n] fm) v) = {k}"
  "checkValue n \<Longrightarrow> recording_keys (Float_Set (floatMetric [tag_Insert k n] fm) v) = {k}"
  by (auto simp: recording_keys_def stats_Record_def stats_RecordWithTags_def
      floatMetric_Set_def tag_New_latency tag_New_result tag_New_name split: prod.splits)

lemmas factory_defs =
  int_factories_def float_factories_def
  reflector_NewListsMetric_def reflector_NewWatchesMetric_def
  reflector_NewShortWatchesMetric_def workqueue_NewDepthMetric_def
  workqueue_NewAddsMetric_def workqueue_NewRetriesMetric_def
  reflector_NewListDurationMetric_def
  reflector_NewItemsInListMetric_def reflector_NewWatchDurationMetric_def
  reflector_NewItemsInWatchMetric_def reflector_NewLastResourceVersionMetric_def
  workqueue_NewLatencyMetric_def workqueue_NewWorkDurationMetric_def
  workqueue_NewLongestRunningProcessorMicrosecondsMetric_def
  workqueue_NewUnfinishedWorkSecondsMetric_def

text \<open>
  Claim C4. Every view's tag keys are among the keys that the adapters recording against
  the view's measure populate. For each of the 17 core views, and for any tag values:
  some recording of the system's adapters is made against the view's measure, and every
  such recording, made with tag values the runtime accepts, is recorded under a tag map
  that has all of the view's tag keys. For the two webhook views the keys are among those
  their measures are documented to carry (the webhook package's recording code is not
  part of the modelled files).
\<close>

theorem view_tag_keys_are_recorded:
  "(\<forall>V \<in> set DefaultViews.
      (\<exists>r \<in> set (system_recordings verb u latency code method host name v).
         recording_Measure r = Measure V) \<and>
      (\<forall>r \<in> set (system_recordings verb u latency code method host name v).
         recording_Measure r = Measure V \<and>
         list_all checkValue [verb, URL_String u, code, method, host, name]
         \<longrightarrow> set (TagKeys V) \<subseteq> recording_keys r)) \<and>
   (\<forall>V \<in> set webhook_DefaultViews.
      \<exists>ks. (Measure V, ks) \<in> set webhook_recorded_keys \<and> set (TagKeys V) \<subseteq> set ks)"
proof (intro conjI)
  show "\<forall>V \<in> set webhook_DefaultViews.
      \<exists>ks. (Measure V, ks) \<in> set webhook_recorded_keys \<and> set (TagKeys V) \<subseteq> set ks"
    by (simp add: webhook_DefaultViews_def webhook_recorded_keys_def ViewTotalRequests_def
        webhook_ViewRequestLatency_def)
  show "\<forall>V \<in> set DefaultViews.
      (\<exists>r \<in> set (system_recordings verb u latency code method host name v).
         recording_Measure r = Measure V) \<and>
      (\<forall>r \<in> set (system_recordings verb u latency code method host name v).
         recording_Measure r = Measure V \<and>
         list_all checkValue [verb, URL_String u, code, method, host, name]
         \<longrightarrow> set (TagKeys V) \<subseteq> recording_keys r)"
    using declared_Measures_distinct
    by (auto simp: DefaultViews_def view_defs system_recordings_def factory_defs
        init_latencyAdapter_def init_resultAdapter_def recording_Measure_simps
        recording_keys_simps declared_Measures_def webhook_declared_Measures_def)
qed

theorem view_tag_keys_are_recorded_witness:
  "ViewDepth \<in> set DefaultViews \<and>
   Int_Inc (workqueue_NewDepthMetric ''q'')
     \<in> set (system_recordings ''GET'' (URL ''https://api/pods'') 5 ''200'' ''GET'' ''api'' ''q'' 1) \<and>
   recording_Measure (Int_Inc (workqueue_NewDepthMetric ''q'')) = Measure ViewDepth \<and>
   list_all checkValue [''GET'', URL_String (URL ''https://api/pods''), ''200'', ''GET'', ''api'', ''q''] \<and>
   set (TagKeys ViewDepth) \<subseteq> recording_keys (Int_Inc (workqueue_NewDepthMetric ''q'')) \<and>
   ViewTotalRequests \<in> set webhook_DefaultViews \<and>
   (Measure ViewTotalRequests, [TagWebhook, TagSucceeded]) \<in> set webhook_recorded_keys \<and>
   set (TagKeys ViewTotalRequests) \<subseteq> set [TagWebhook, TagSucceeded]"
  using view_tag_keys_are_recorded
    [of "''GET''" "URL ''https://api/pods''" 5 "''200''" "''GET''" "''api''" "''q''" 1]
  by (simp add: DefaultViews_def webhook_DefaultViews_def system_recordings_def
      int_factories_def workqueue_NewDepthMetric_def recording_Measure_simps
      recording_keys_simps ViewDepth_def ViewTotalRequests_def webhook_recorded_keys_def
      checkValue_def isASCII_def)

end
